theory Spec2Isabelle
  imports Main "HOL-Library.Word"
begin

section \<open>Data model of \<^verbatim>\<open>aws/dynamodb.go\<close>\<close>

text \<open>
  Go's \<^verbatim>\<open>any\<close> holds \<^verbatim>\<open>nil\<close> or a dynamically typed value. The query layer only ever
  compares such a value with \<^verbatim>\<open>nil\<close>, hands it to \<^verbatim>\<open>expression.Value\<close>, or prints it
  with \<^verbatim>\<open>fmt.Sprint\<close>; strings, integers and booleans stand for the dynamic values.
\<close>

datatype any = AnyNil | AnyString string | AnyInt int | AnyBool bool

type_synonym LogicalOperator = string
type_synonym WhereOperator = string

definition AND :: LogicalOperator where "AND = ''AND''"
definition OR :: LogicalOperator where "OR = ''OR''"

definition Equal :: WhereOperator where "Equal = ''=''"
definition NotEqual :: WhereOperator where "NotEqual = ''!=''"
definition LessThan :: WhereOperator where "LessThan = ''<''"
definition LessThanEqual :: WhereOperator where "LessThanEqual = ''<=''"
definition GreaterThan :: WhereOperator where "GreaterThan = ''>''"
definition GreaterThanEqual :: WhereOperator where "GreaterThanEqual = ''>=''"
definition Between :: WhereOperator where "Between = ''BETWEEN''"
definition In :: WhereOperator where "In = ''IN''"
definition Contains :: WhereOperator where "Contains = ''CONTAINS''"
definition BeginsWith :: WhereOperator where "BeginsWith = ''BEGINS_WITH''"
definition AttributeExists :: WhereOperator where "AttributeExists = ''EXISTS''"
definition AttributeNotExists :: WhereOperator where "AttributeNotExists = ''NOT_EXISTS''"

text \<open>
  \<^verbatim>\<open>QueryKeyValue\<close>, \<^verbatim>\<open>WhereCondition\<close> and \<^verbatim>\<open>Where\<close> all have fields called
  \<^verbatim>\<open>Operator\<close> and \<^verbatim>\<open>Value\<close> in the source. \<^verbatim>\<open>WhereCondition\<close> keeps the source's
  names; the key record prefixes its fields with \<open>Key\<close> and the tree node calls its
  logical operator \<open>Logical\<close>.
\<close>

record QueryKeyValue =
  Key :: string
  KeyValue :: any
  KeyOperator :: WhereOperator

record WhereCondition =
  Field :: string
  Operator :: WhereOperator
  Value :: any
  Value2 :: any
  Values :: "any list"

datatype Where =
  WhereNode (Conditions: "WhereCondition list") (Groups: "Where list") (Logical: LogicalOperator)

text \<open>A Go pointer field (\<^verbatim>\<open>*QueryKeyValue\<close>, \<^verbatim>\<open>*Where\<close>) is an option: \<open>None\<close> is \<^verbatim>\<open>nil\<close>.\<close>

record QueryOptions =
  Table :: string
  Index :: string
  Limit :: "32 word"
  Cursor :: string
  Partition :: "QueryKeyValue option"
  Sort :: "QueryKeyValue option"
  Where :: "Where option"

text \<open>
  Every Go \<^verbatim>\<open>error\<close> the query path can see: the package's sentinel errors, the errors
  made on the spot by \<^verbatim>\<open>errors.New\<close> and \<^verbatim>\<open>fmt.Errorf\<close> (identified by their message),
  and the errors that come out of the SDK (a cancelled or expired context, any other
  failure of the expression builder or of the transport).
\<close>

datatype error =
    DynamoDBErrBuildFilterExpression
  | DynamoDBErrBuildUpdateExpression
  | DynamoDBErrIndexNotSet
  | DynamoDBErrQuery
  | DynamoDBErrTableNotSet
  | DynamoDBErrUnmarshal
  | DynamoDBErrUpdateItem
  | DynamoDBErrValueNotSet
  | DynamoDBErrPartitionNotSet
  | ErrorsNew string
  | ContextCanceled
  | ContextDeadlineExceeded
  | SdkError string

definition defaultLimit :: int where "defaultLimit = 100"

section \<open>The SDK's expression builders, as syntax trees\<close>

text \<open>
  \<^verbatim>\<open>expression.Name\<close>, \<^verbatim>\<open>expression.Value\<close> and \<^verbatim>\<open>expression.Key\<close> build operands;
  the methods called on them build condition trees. Each builder call of the source is
  one constructor, its arguments in call order; \<open>CondAnd l r\<close> is \<^verbatim>\<open>l.And(r)\<close>.
\<close>

datatype OperandBuilder = NameOperand string | ValueOperand any

datatype ConditionBuilder =
    CondEqual OperandBuilder OperandBuilder
  | CondNotEqual OperandBuilder OperandBuilder
  | CondLessThan OperandBuilder OperandBuilder
  | CondLessThanEqual OperandBuilder OperandBuilder
  | CondGreaterThan OperandBuilder OperandBuilder
  | CondGreaterThanEqual OperandBuilder OperandBuilder
  | CondBetween OperandBuilder OperandBuilder OperandBuilder
  | CondIn OperandBuilder OperandBuilder "OperandBuilder list"
  | CondContains OperandBuilder string
  | CondBeginsWith OperandBuilder string
  | CondAttributeExists OperandBuilder
  | CondAttributeNotExists OperandBuilder
  | CondAnd ConditionBuilder ConditionBuilder
  | CondOr ConditionBuilder ConditionBuilder

datatype KeyConditionBuilder =
    KeyEqual string OperandBuilder
  | KeyAnd KeyConditionBuilder KeyConditionBuilder

section \<open>\<^verbatim>\<open>fmt.Sprint\<close> on one operand\<close>

fun digits :: "nat \<Rightarrow> string" where
  "digits n =
     (if n < 10 then [''0123456789'' ! n]
      else digits (n div 10) @ [''0123456789'' ! (n mod 10)])"

declare digits.simps [simp del]

fun Sprint :: "any \<Rightarrow> string" where
  "Sprint AnyNil = ''<nil>''"
| "Sprint (AnyString s) = s"
| "Sprint (AnyInt i) = (if i < 0 then ''-'' @ digits (nat (- i)) else digits (nat i))"
| "Sprint (AnyBool b) = (if b then ''true'' else ''false'')"

section \<open>The condition compiler: \<^verbatim>\<open>buildSingleCondition\<close>\<close>

text \<open>
  The \<^verbatim>\<open>switch\<close> over the operator string, case by case in source order. The \<^verbatim>\<open>In\<close>
  case guards the read of \<^verbatim>\<open>cond.Values[0]\<close>; no other case looks at its operands.
\<close>

definition buildSingleCondition :: "WhereCondition \<Rightarrow> error + ConditionBuilder" where
  "buildSingleCondition cond =
     (let name = NameOperand (Field cond) in
      if Operator cond = Equal then Inr (CondEqual name (ValueOperand (Value cond)))
      else if Operator cond = NotEqual then Inr (CondNotEqual name (ValueOperand (Value cond)))
      else if Operator cond = LessThan then Inr (CondLessThan name (ValueOperand (Value cond)))
      else if Operator cond = LessThanEqual then
        Inr (CondLessThanEqual name (ValueOperand (Value cond)))
      else if Operator cond = GreaterThan then
        Inr (CondGreaterThan name (ValueOperand (Value cond)))
      else if Operator cond = GreaterThanEqual then
        Inr (CondGreaterThanEqual name (ValueOperand (Value cond)))
      else if Operator cond = Between then
        Inr (CondBetween name (ValueOperand (Value cond)) (ValueOperand (Value2 cond)))
      else if Operator cond = In then
        (case Values cond of
           [] \<Rightarrow> Inl (ErrorsNew ''IN operator requires non-empty Values slice'')
         | v # vs \<Rightarrow> Inr (CondIn name (ValueOperand v) (map ValueOperand vs)))
      else if Operator cond = Contains then Inr (CondContains name (Sprint (Value cond)))
      else if Operator cond = BeginsWith then Inr (CondBeginsWith name (Sprint (Value cond)))
      else if Operator cond = AttributeExists then Inr (CondAttributeExists name)
      else if Operator cond = AttributeNotExists then Inr (CondAttributeNotExists name)
      else Inl (ErrorsNew (''unsupported operator: '' @ Operator cond)))"

section \<open>The where compiler: \<^verbatim>\<open>buildFilterExpression\<close>\<close>

text \<open>
  The first loop: compile the leaf conditions in order, appending each to
  \<^verbatim>\<open>conditions\<close>, and return at the first error.
\<close>

fun buildConditions ::
  "WhereCondition list \<Rightarrow> ConditionBuilder list \<Rightarrow> error + ConditionBuilder list" where
  "buildConditions [] conditions = Inr conditions"
| "buildConditions (condition # rest) conditions =
     (case buildSingleCondition condition of
        Inl err \<Rightarrow> Inl err
      | Inr cond \<Rightarrow> buildConditions rest (conditions @ [cond]))"

text \<open>
  The last loop: \<^verbatim>\<open>result\<close> starts as \<^verbatim>\<open>conditions[0]\<close> and takes each later entry
  with \<^verbatim>\<open>And\<close> when the operator is empty or \<^verbatim>\<open>AND\<close>, with \<^verbatim>\<open>Or\<close> otherwise.
\<close>

fun combine ::
  "LogicalOperator \<Rightarrow> ConditionBuilder \<Rightarrow> ConditionBuilder list \<Rightarrow> ConditionBuilder" where
  "combine op result [] = result"
| "combine op result (c # cs) =
     (if op = '''' \<or> op = AND then combine op (CondAnd result c) cs
      else combine op (CondOr result c) cs)"

text \<open>
  The function itself, with the loop over the nested groups as its mutually recursive
  companion: each group is compiled by the function and appended to \<^verbatim>\<open>conditions\<close>,
  and the first error is returned.
\<close>

fun buildFilterExpression :: "Where \<Rightarrow> error + ConditionBuilder"
  and buildGroups :: "Where list \<Rightarrow> ConditionBuilder list \<Rightarrow> error + ConditionBuilder list"
where
  "buildFilterExpression (WhereNode conds groups op) =
     (case buildConditions conds [] of
        Inl err \<Rightarrow> Inl err
      | Inr conditions \<Rightarrow>
          (case buildGroups groups conditions of
             Inl err \<Rightarrow> Inl err
           | Inr [] \<Rightarrow> Inl (ErrorsNew ''no conditions provided'')
           | Inr (c # cs) \<Rightarrow> Inr (combine op c cs)))"
| "buildGroups [] conditions = Inr conditions"
| "buildGroups (nestedGroup # rest) conditions =
     (case buildFilterExpression nestedGroup of
        Inl err \<Rightarrow> Inl err
      | Inr nestedCond \<Rightarrow> buildGroups rest (conditions @ [nestedCond]))"

section \<open>The store client and the SDK's paginator\<close>

text \<open>
  \<^verbatim>\<open>types.AttributeValue\<close> and the maps over it: items and continuation keys. The query
  layer never looks inside them.
\<close>

datatype AttributeValue =
  AttrS string | AttrN string | AttrBOOL bool | AttrNULL

type_synonym AttributeMap = "(string \<times> AttributeValue) list"

text \<open>
  What \<^verbatim>\<open>builder.Build()\<close> returns, read through its accessors \<^verbatim>\<open>Names()\<close>,
  \<^verbatim>\<open>Values()\<close>, \<^verbatim>\<open>KeyCondition()\<close>, \<^verbatim>\<open>Projection()\<close> and \<^verbatim>\<open>Filter()\<close>.
\<close>

record Expression =
  ExprNames :: "(string \<times> string) list"
  ExprValues :: AttributeMap
  ExprKeyCondition :: "string option"
  ExprProjection :: "string option"
  ExprFilter :: "string option"

text \<open>
  \<^verbatim>\<open>dynamodb.QueryInput\<close>, with the fields the source sets and the
  \<^verbatim>\<open>ExclusiveStartKey\<close> the paginator sets. Its \<^verbatim>\<open>Limit\<close> is \<open>PageLimit\<close> here,
  since \<open>Limit\<close> is the field of \<^verbatim>\<open>QueryOptions\<close>. A pointer is an option.
\<close>

record QueryInput =
  TableName :: "string option"
  IndexName :: "string option"
  ExpressionAttributeNames :: "(string \<times> string) list"
  ExpressionAttributeValues :: AttributeMap
  KeyConditionExpression :: "string option"
  ProjectionExpression :: "string option"
  PageLimit :: "32 word option"
  FilterExpression :: "string option"
  ExclusiveStartKey :: "AttributeMap option"

record QueryOutput =
  Items :: "AttributeMap list"
  LastEvaluatedKey :: "AttributeMap option"

text \<open>
  The store client is the external collaborator. One call of \<^verbatim>\<open>client.Query\<close> takes the
  caller's context and the request, and answers with an error or a page; the store and
  everything else outside the program (time, and with it the state of the context) is
  the state \<open>'s\<close> that the call reads and changes. The world also keeps the requests
  sent so far, in order.
\<close>

type_synonym ('c, 's) client =
  "'c \<Rightarrow> QueryInput \<Rightarrow> 's \<Rightarrow> (error + QueryOutput) \<times> 's"

record 's world =
  requests :: "QueryInput list"
  backend :: 's

definition clientQuery ::
  "('c, 's) client \<Rightarrow> 'c \<Rightarrow> QueryInput \<Rightarrow> 's world \<Rightarrow> (error + QueryOutput) \<times> 's world" where
  "clientQuery client ctx input w =
     (case client ctx input (backend w) of
        (r, s') \<Rightarrow> (r, \<lparr>requests = requests w @ [input], backend = s'\<rparr>))"

text \<open>
  \<^verbatim>\<open>dynamodb.QueryPaginator\<close> of the SDK: \<^verbatim>\<open>NewQueryPaginator\<close> copies the request's limit
  into its options and starts from the request's \<^verbatim>\<open>ExclusiveStartKey\<close>;
  \<^verbatim>\<open>HasMorePages\<close> holds on the first page and while a token is left; \<^verbatim>\<open>NextPage\<close>
  sends the request with the current token (and with the limit only when it is
  positive) and keeps the answer's \<^verbatim>\<open>LastEvaluatedKey\<close> as the next token.
\<close>

record QueryPaginator =
  params :: QueryInput
  optionsLimit :: "32 word"
  firstPage :: bool
  nextToken :: "AttributeMap option"

definition NewQueryPaginator :: "QueryInput \<Rightarrow> QueryPaginator" where
  "NewQueryPaginator input =
     \<lparr>params = input,
      optionsLimit = (case PageLimit input of None \<Rightarrow> 0 | Some l \<Rightarrow> l),
      firstPage = True,
      nextToken = ExclusiveStartKey input\<rparr>"

definition HasMorePages :: "QueryPaginator \<Rightarrow> bool" where
  "HasMorePages p = (firstPage p \<or> nextToken p \<noteq> None)"

definition pageRequest :: "QueryPaginator \<Rightarrow> QueryInput" where
  "pageRequest p =
     (params p)\<lparr>ExclusiveStartKey := nextToken p,
               PageLimit := (if 0 <s optionsLimit p then Some (optionsLimit p) else None)\<rparr>"

definition NextPage ::
  "('c, 's) client \<Rightarrow> 'c \<Rightarrow> QueryPaginator \<Rightarrow> 's world
     \<Rightarrow> (error + QueryOutput) \<times> QueryPaginator \<times> 's world" where
  "NextPage client ctx p w =
     (if \<not> HasMorePages p then (Inl (SdkError ''no more pages available''), p, w)
      else
        (case clientQuery client ctx (pageRequest p) w of
           (Inl err, w') \<Rightarrow> (Inl err, p, w')
         | (Inr result, w') \<Rightarrow>
             (Inr result, p\<lparr>firstPage := False, nextToken := LastEvaluatedKey result\<rparr>, w')))"

section \<open>The query executor: \<^verbatim>\<open>Query\<close>\<close>

text \<open>
  Go's two results \<^verbatim>\<open>(items, err)\<close> are a pair: the item slice (\<open>[]\<close> is \<^verbatim>\<open>nil\<close>) and
  the error, \<open>None\<close> for \<^verbatim>\<open>nil\<close>.
\<close>

type_synonym QueryResult = "AttributeMap list \<times> error option"

text \<open>The sort-key block (source lines 118 to 126), applied to the partition condition.\<close>

definition withSort ::
  "KeyConditionBuilder \<Rightarrow> QueryKeyValue option \<Rightarrow> error + KeyConditionBuilder" where
  "withSort keyEx sortKey =
     (case sortKey of
        None \<Rightarrow> Inr keyEx
      | Some srt \<Rightarrow>
          if Key srt \<noteq> '''' \<and> KeyValue srt \<noteq> AnyNil then
            (if KeyOperator srt = Equal then
               Inr (KeyAnd keyEx (KeyEqual (Key srt) (ValueOperand (KeyValue srt))))
             else Inl (ErrorsNew (''unsupported sort key operator: '' @ KeyOperator srt)))
          else Inr keyEx)"

text \<open>The request literal and the filter assignment after it (source lines 145 to 157).\<close>

definition queryInput :: "QueryOptions \<Rightarrow> Expression \<Rightarrow> QueryInput" where
  "queryInput opts expr =
     (let input =
        \<lparr>TableName = Some (Table opts),
         IndexName = Some (Index opts),
         ExpressionAttributeNames = ExprNames expr,
         ExpressionAttributeValues = ExprValues expr,
         KeyConditionExpression = ExprKeyCondition expr,
         ProjectionExpression = ExprProjection expr,
         PageLimit = Some (Limit opts),
         FilterExpression = None,
         ExclusiveStartKey = None\<rparr>
      in if ExprFilter expr \<noteq> None then input\<lparr>FilterExpression := ExprFilter expr\<rparr>
         else input)"

text \<open>
  The pagination loop (source lines 168 to 178). Each fetch uses one unit of fuel, so a
  store that never stops handing out tokens shows as \<open>None\<close>.
\<close>

fun paginate ::
  "nat \<Rightarrow> ('c, 's) client \<Rightarrow> 'c \<Rightarrow> QueryPaginator \<Rightarrow> AttributeMap list \<Rightarrow> 's world
     \<Rightarrow> (QueryResult \<times> 's world) option" where
  "paginate 0 client ctx p items w =
     (if HasMorePages p then None else Some ((items, None), w))"
| "paginate (Suc fuel) client ctx p items w =
     (if HasMorePages p then
        (case NextPage client ctx p w of
           (Inl err, p', w') \<Rightarrow> Some (([], Some DynamoDBErrQuery), w')
         | (Inr response, p', w') \<Rightarrow>
             paginate fuel client ctx p' (items @ Items response) w')
      else Some ((items, None), w))"

text \<open>
  \<^verbatim>\<open>Query\<close>. The expression builder's \<^verbatim>\<open>Build\<close> belongs to the SDK and is the
  parameter \<open>build\<close>, from the key condition and the optional filter to an error or the
  built expression. Printing the request as JSON (and the panic, should that marshalling
  ever fail) has no part in the result and is left out.
\<close>

definition Query ::
  "nat \<Rightarrow> (KeyConditionBuilder \<Rightarrow> ConditionBuilder option \<Rightarrow> error + Expression)
     \<Rightarrow> ('c, 's) client \<Rightarrow> 'c \<Rightarrow> QueryOptions \<Rightarrow> 's world
     \<Rightarrow> (QueryResult \<times> 's world) option" where
  "Query fuel build client ctx opts w =
     (if Table opts = '''' then Some (([], Some DynamoDBErrTableNotSet), w)
      else if Index opts = '''' then Some (([], Some DynamoDBErrIndexNotSet), w)
      else
        (case Partition opts of
           None \<Rightarrow> Some (([], Some DynamoDBErrPartitionNotSet), w)
         | Some part \<Rightarrow>
             if Key part = '''' \<or> KeyValue part = AnyNil then
               Some (([], Some DynamoDBErrPartitionNotSet), w)
             else
               (case withSort (KeyEqual (Key part) (ValueOperand (KeyValue part)))
                       (Sort opts) of
                  Inl err \<Rightarrow> Some (([], Some err), w)
                | Inr keyEx \<Rightarrow>
                    (case (case Where opts of
                             None \<Rightarrow> Inr None
                           | Some wh \<Rightarrow>
                               (case buildFilterExpression wh of
                                  Inl err \<Rightarrow> Inl DynamoDBErrBuildFilterExpression
                                | Inr filterExpr \<Rightarrow> Inr (Some filterExpr))) of
                       Inl err \<Rightarrow> Some (([], Some err), w)
                     | Inr filterOpt \<Rightarrow>
                         (case build keyEx filterOpt of
                            Inl err \<Rightarrow> Some (([], Some err), w)
                          | Inr expr \<Rightarrow>
                              paginate fuel client ctx
                                (NewQueryPaginator (queryInput opts expr)) [] w)))))"

section \<open>Runs that fail on a later page\<close>

text \<open>
  What it is for the store to serve the pages \<open>outs\<close>, one after the other and each
  announcing a further page, and then to fail: the store is asked what the paginator
  asks, from the state the previous answer left, and \<open>s'\<close> is its state after the
  failed call.
\<close>

fun failsAfter ::
  "('c, 's) client \<Rightarrow> 'c \<Rightarrow> QueryPaginator \<Rightarrow> 's \<Rightarrow> QueryOutput list \<Rightarrow> 's \<Rightarrow> bool" where
  "failsAfter client ctx p s [] s' =
     (case client ctx (pageRequest p) s of
        (Inl err, t) \<Rightarrow> t = s'
      | (Inr out, t) \<Rightarrow> False)"
| "failsAfter client ctx p s (out # outs) s' =
     (case client ctx (pageRequest p) s of
        (Inl err, t) \<Rightarrow> False
      | (Inr result, t) \<Rightarrow>
          result = out \<and> LastEvaluatedKey out \<noteq> None
          \<and> failsAfter client ctx (p\<lparr>firstPage := False, nextToken := LastEvaluatedKey out\<rparr>)
               t outs s')"

section \<open>Synthetic collaborators for concrete runs\<close>

text \<open>
  A builder that always succeeds, with fixed placeholder text for the key condition and
  for a filter when one was given.
\<close>

definition plainExpression :: "ConditionBuilder option \<Rightarrow> Expression" where
  "plainExpression filterOpt =
     \<lparr>ExprNames = [(''#0'', ''k'')],
      ExprValues = [('':0'', AttrS ''v'')],
      ExprKeyCondition = Some ''#0 = :0'',
      ExprProjection = None,
      ExprFilter = (case filterOpt of None \<Rightarrow> None | Some c \<Rightarrow> Some ''filter'')\<rparr>"

definition plainBuild ::
  "KeyConditionBuilder \<Rightarrow> ConditionBuilder option \<Rightarrow> error + Expression" where
  "plainBuild keyEx filterOpt = Inr (plainExpression filterOpt)"

text \<open>
  A scripted store: its state is the list of answers still to give, one per call; it
  ignores the context. Past the end of the script it fails.
\<close>

definition scripted :: "('c, (error + QueryOutput) list) client" where
  "scripted ctx input script =
     (case script of
        [] \<Rightarrow> (Inl (SdkError ''script exhausted''), [])
      | r # rest \<Rightarrow> (r, rest))"

text \<open>
  A scripted store that honours the context, as the SDK's transport does. The context
  is the number of completed calls after which the caller cancels it; the state counts
  the completed calls. A call made once the context is cancelled fails with the
  context's error and leaves the script alone.
\<close>

definition cancellable :: "(nat, nat \<times> (error + QueryOutput) list) client" where
  "cancellable ctx input st =
     (case st of
        (made, script) \<Rightarrow>
          if ctx \<le> made then (Inl ContextCanceled, (made, script))
          else
            (case script of
               [] \<Rightarrow> (Inl (SdkError ''script exhausted''), (Suc made, []))
             | r # rest \<Rightarrow> (r, (Suc made, rest))))"

definition item :: "string \<Rightarrow> AttributeMap" where
  "item name = [(''id'', AttrS name)]"

definition page :: "string list \<Rightarrow> string option \<Rightarrow> error + QueryOutput" where
  "page names token =
     Inr \<lparr>Items = map item names,
          LastEvaluatedKey = (case token of None \<Rightarrow> None | Some t \<Rightarrow> Some (item t))\<rparr>"

definition validOptions :: QueryOptions where
  "validOptions =
     \<lparr>Table = ''table'', Index = ''Status'', Limit = 0, Cursor = '''',
      Partition = Some \<lparr>Key = ''Status'', KeyValue = AnyString ''active'', KeyOperator = ''''\<rparr>,
      Sort = None, Where = None\<rparr>"

definition startWorld :: "'s \<Rightarrow> 's world" where
  "startWorld s = \<lparr>requests = [], backend = s\<rparr>"

text \<open>
  What a run shows from outside: the two results of \<^verbatim>\<open>Query\<close>, and the requests the
  store received.
\<close>

definition outcome :: "(QueryResult \<times> 's world) option \<Rightarrow> QueryResult option" where
  "outcome run = map_option fst run"

definition sent :: "(QueryResult \<times> 's world) option \<Rightarrow> QueryInput list option" where
  "sent run = map_option (\<lambda>(r, w). requests w) run"

text \<open>A leaf condition \<^verbatim>\<open>field = n\<close>, and the predicate it compiles to.\<close>

definition leaf :: "string \<Rightarrow> int \<Rightarrow> WhereCondition" where
  "leaf field n = \<lparr>Field = field, Operator = Equal, Value = AnyInt n, Value2 = AnyNil, Values = []\<rparr>"

definition leafCond :: "string \<Rightarrow> int \<Rightarrow> ConditionBuilder" where
  "leafCond field n = CondEqual (NameOperand field) (ValueOperand (AnyInt n))"

text \<open>Three pages of 3, 3 and 2 items; the last one carries no continuation key.\<close>

definition threePages :: "(error + QueryOutput) list" where
  "threePages =
     [page [''a'', ''b'', ''c''] (Some ''c''),
      page [''d'', ''e'', ''f''] (Some ''f''),
      page [''g'', ''h''] None]"

text \<open>The same store failing on its second page.\<close>

definition failingPages :: "(error + QueryOutput) list" where
  "failingPages =
     [page [''a'', ''b'', ''c''] (Some ''c''),
      Inl (SdkError ''boom''),
      page [''g'', ''h''] None]"

text \<open>The request \<^verbatim>\<open>Query\<close> assembles for \<open>validOptions\<close> with the builder above.\<close>

definition plainInput :: QueryInput where
  "plainInput = queryInput validOptions (plainExpression None)"

section \<open>Properties\<close>

lemmas WhereOperator_defs =
  Equal_def NotEqual_def LessThan_def LessThanEqual_def GreaterThan_def
  GreaterThanEqual_def Between_def In_def Contains_def BeginsWith_def
  AttributeExists_def AttributeNotExists_def

lemmas run_defs =
  Query_def validOptions_def withSort_def plainBuild_def plainExpression_def queryInput_def
  NewQueryPaginator_def startWorld_def HasMorePages_def NextPage_def clientQuery_def
  scripted_def cancellable_def page_def pageRequest_def threePages_def failingPages_def
  plainInput_def outcome_def sent_def numeral_eq_Suc Let_def

subsection \<open>Validation\<close>

text \<open>
  Claim C7. \<^verbatim>\<open>Query\<close> checks the table, then the index, then the partition, and stops
  at the first one that is missing: an empty \<^verbatim>\<open>Table\<close> gives \<^verbatim>\<open>DynamoDBErrTableNotSet\<close>
  whatever the other fields are; with a table, an empty \<^verbatim>\<open>Index\<close> gives
  \<^verbatim>\<open>DynamoDBErrIndexNotSet\<close>; with both, a partition that is \<^verbatim>\<open>nil\<close> or has an empty key
  or a \<^verbatim>\<open>nil\<close> value gives \<^verbatim>\<open>DynamoDBErrPartitionNotSet\<close>. Each time the items are
  \<^verbatim>\<open>nil\<close> and the world is untouched: no request was sent, for any fuel, builder and
  client.
\<close>

theorem Query_validation_order:
  "(Table opts = '''' \<longrightarrow>
      Query fuel build client ctx opts w = Some (([], Some DynamoDBErrTableNotSet), w))
   \<and> (Table opts \<noteq> '''' \<and> Index opts = '''' \<longrightarrow>
      Query fuel build client ctx opts w = Some (([], Some DynamoDBErrIndexNotSet), w))
   \<and> (Table opts \<noteq> '''' \<and> Index opts \<noteq> ''''
        \<and> (Partition opts = None
           \<or> (\<exists>p. Partition opts = Some p \<and> (Key p = '''' \<or> KeyValue p = AnyNil))) \<longrightarrow>
      Query fuel build client ctx opts w = Some (([], Some DynamoDBErrPartitionNotSet), w))"
  by (auto simp: Query_def)

theorem Query_validation_order_witness:
  "Query 3 plainBuild scripted ()
       (validOptions\<lparr>Table := '''', Index := '''', Partition := None\<rparr>) (startWorld threePages)
     = Some (([], Some DynamoDBErrTableNotSet), startWorld threePages)
   \<and> Query 3 plainBuild scripted ()
       (validOptions\<lparr>Index := '''', Partition := None\<rparr>) (startWorld threePages)
     = Some (([], Some DynamoDBErrIndexNotSet), startWorld threePages)
   \<and> Query 3 plainBuild scripted ()
       (validOptions\<lparr>Partition := Some \<lparr>Key = ''Status'', KeyValue = AnyNil, KeyOperator = Equal\<rparr>\<rparr>)
       (startWorld threePages)
     = Some (([], Some DynamoDBErrPartitionNotSet), startWorld threePages)"
  using
    Query_validation_order [of "validOptions\<lparr>Table := '''', Index := '''', Partition := None\<rparr>"
      3 plainBuild scripted "()" "startWorld threePages"]
    Query_validation_order [of "validOptions\<lparr>Index := '''', Partition := None\<rparr>"
      3 plainBuild scripted "()" "startWorld threePages"]
    Query_validation_order [of
      "validOptions\<lparr>Partition := Some \<lparr>Key = ''Status'', KeyValue = AnyNil, KeyOperator = Equal\<rparr>\<rparr>"
      3 plainBuild scripted "()" "startWorld threePages"]
  by (simp add: validOptions_def)

subsection \<open>The condition compiler\<close>

text \<open>
  Claim C3, as the code has it. A \<^verbatim>\<open>Between\<close> condition always compiles: the result is
  the range predicate over \<^verbatim>\<open>Value\<close> and \<^verbatim>\<open>Value2\<close> as they are, and an absent bound
  is the \<^verbatim>\<open>nil\<close> operand. The compiler has no error for a missing bound.
\<close>

theorem Between_always_compiles:
  "Operator cond = Between \<Longrightarrow>
   buildSingleCondition cond =
     Inr (CondBetween (NameOperand (Field cond)) (ValueOperand (Value cond))
            (ValueOperand (Value2 cond)))"
  by (simp add: buildSingleCondition_def WhereOperator_defs)

theorem Between_always_compiles_witness:
  "Operator \<lparr>Field = ''year'', Operator = ''BETWEEN'', Value = AnyNil, Value2 = AnyNil,
             Values = []\<rparr> = Between
   \<and> buildSingleCondition
        \<lparr>Field = ''year'', Operator = ''BETWEEN'', Value = AnyNil, Value2 = AnyNil, Values = []\<rparr>
     = Inr (CondBetween (NameOperand ''year'') (ValueOperand AnyNil) (ValueOperand AnyNil))"
  using Between_always_compiles [of
    "\<lparr>Field = ''year'', Operator = ''BETWEEN'', Value = AnyNil, Value2 = AnyNil, Values = []\<rparr>"]
  by (simp add: Between_def)

text \<open>
  The claim as written fails where only the upper bound is absent: a range predicate
  comes out, and no error.
\<close>

theorem Between_missing_bound_counterexample:
  "buildSingleCondition
      \<lparr>Field = ''age'', Operator = Between, Value = AnyInt 1, Value2 = AnyNil, Values = []\<rparr>
     = Inr (CondBetween (NameOperand ''age'') (ValueOperand (AnyInt 1)) (ValueOperand AnyNil))
   \<and> \<not> isl (buildSingleCondition
        \<lparr>Field = ''age'', Operator = Between, Value = AnyInt 1, Value2 = AnyNil, Values = []\<rparr>)"
  by (simp add: buildSingleCondition_def WhereOperator_defs)

subsection \<open>The where compiler\<close>

lemma buildConditions_all:
  "map buildSingleCondition conds = map Inr leaves \<Longrightarrow>
   buildConditions conds acc = Inr (acc @ leaves)"
proof (induction conds arbitrary: acc leaves)
  case Nil
  then show ?case by simp
next
  case (Cons c cs)
  then obtain l ls where "leaves = l # ls" "buildSingleCondition c = Inr l"
    "map buildSingleCondition cs = map Inr ls"
    by (cases leaves) auto
  with Cons.IH [of ls "acc @ [l]"] show ?case by simp
qed

lemma buildGroups_all:
  "map buildFilterExpression groups = map Inr nested \<Longrightarrow>
   buildGroups groups acc = Inr (acc @ nested)"
proof (induction groups arbitrary: acc nested)
  case Nil
  then show ?case by simp
next
  case (Cons g gs)
  then obtain n ns where "nested = n # ns" "buildFilterExpression g = Inr n"
    "map buildFilterExpression gs = map Inr ns"
    by (cases nested) auto
  with Cons.IH [of ns "acc @ [n]"] show ?case by simp
qed

lemma combine_foldl:
  "combine op result cs = foldl (if op = '''' \<or> op = AND then CondAnd else CondOr) result cs"
  by (induction cs arbitrary: result) auto



lemma leaf_compiles: "buildSingleCondition (leaf field n) = Inr (leafCond field n)"
  by (simp add: buildSingleCondition_def leaf_def leafCond_def)

text \<open>
  Claim C6, as the code has it. When every leaf condition of a level compiles (to
  \<open>leaves\<close>) and every nested group compiles (to \<open>nested\<close>, one predicate per group),
  the level compiles to the left fold over the leaves followed by the groups, each in
  order, starting from the first predicate, with \<^verbatim>\<open>And\<close> when the level's operator is
  empty or \<^verbatim>\<open>AND\<close> and \<^verbatim>\<open>Or\<close> otherwise; a level with neither fails with
  \<^verbatim>\<open>no conditions provided\<close>. A group's predicate enters the fold as any leaf's does,
  after the leaves: \<^verbatim>\<open>Where{Groups:[{Conditions:[A,B], Operator:OR}], Conditions:[C],
  Operator:AND}\<close> compiles to \<^verbatim>\<open>C AND (A OR B)\<close>.
\<close>

theorem buildFilterExpression_fold:
  assumes "map buildSingleCondition conds = map Inr leaves"
      and "map buildFilterExpression groups = map Inr nested"
  shows "buildFilterExpression (WhereNode conds groups op) =
     (case leaves @ nested of
        [] \<Rightarrow> Inl (ErrorsNew ''no conditions provided'')
      | first # rest \<Rightarrow>
          Inr (foldl (if op = '''' \<or> op = AND then CondAnd else CondOr) first rest))"
  using buildConditions_all [OF assms(1), of "[]"]
    buildGroups_all [OF assms(2), of leaves]
  by (simp add: combine_foldl split: list.splits)

theorem buildFilterExpression_fold_witness:
  "map buildSingleCondition [leaf ''c'' 3] = map Inr [leafCond ''c'' 3]
   \<and> map buildFilterExpression [WhereNode [leaf ''a'' 1, leaf ''b'' 2] [] OR]
       = map Inr [CondOr (leafCond ''a'' 1) (leafCond ''b'' 2)]
   \<and> buildFilterExpression
        (WhereNode [leaf ''c'' 3] [WhereNode [leaf ''a'' 1, leaf ''b'' 2] [] OR] AND)
       = Inr (CondAnd (leafCond ''c'' 3) (CondOr (leafCond ''a'' 1) (leafCond ''b'' 2)))"
proof -
  have leaves: "map buildSingleCondition [leaf ''c'' 3] = map Inr [leafCond ''c'' 3]"
    by (simp add: leaf_compiles)
  have inner: "map buildSingleCondition [leaf ''a'' 1, leaf ''b'' 2]
                 = map Inr [leafCond ''a'' 1, leafCond ''b'' 2]"
    by (simp add: leaf_compiles)
  have none: "map buildFilterExpression [] = map Inr []"
    by simp
  have nested: "map buildFilterExpression [WhereNode [leaf ''a'' 1, leaf ''b'' 2] [] OR]
                  = map Inr [CondOr (leafCond ''a'' 1) (leafCond ''b'' 2)]"
    using buildFilterExpression_fold [OF inner none, of OR] by (simp add: OR_def AND_def)
  show ?thesis
    using leaves nested buildFilterExpression_fold [OF leaves nested, of AND] by simp
qed

text \<open>
  The claim's own example, in the claim's order: the compiled tree is not
  \<^verbatim>\<open>(A OR B) AND C\<close>, the group's predicate is the right operand.
\<close>

theorem group_order_counterexample:
  "buildSingleCondition (leaf ''a'' 1) = Inr (leafCond ''a'' 1)
   \<and> buildSingleCondition (leaf ''b'' 2) = Inr (leafCond ''b'' 2)
   \<and> buildSingleCondition (leaf ''c'' 3) = Inr (leafCond ''c'' 3)
   \<and> buildFilterExpression
        (WhereNode [leaf ''c'' 3] [WhereNode [leaf ''a'' 1, leaf ''b'' 2] [] OR] AND)
       \<noteq> Inr (CondAnd (CondOr (leafCond ''a'' 1) (leafCond ''b'' 2)) (leafCond ''c'' 3))"
  by (simp add: leaf_compiles OR_def AND_def leafCond_def)








subsection \<open>The key condition\<close>

text \<open>
  Claim C9. When \<^verbatim>\<open>Sort\<close> is given but its key is empty or its value is \<^verbatim>\<open>nil\<close>, the
  sort-key block leaves the partition's key condition as it is and returns no error,
  whatever \<^verbatim>\<open>Sort.Operator\<close> says; \<^verbatim>\<open>Query\<close> then runs exactly as it does without
  \<^verbatim>\<open>Sort\<close>.
\<close>

theorem incomplete_Sort_is_ignored:
  assumes "Sort opts = Some srt" and "Key srt = '''' \<or> KeyValue srt = AnyNil"
  shows "withSort keyEx (Sort opts) = Inr keyEx
       \<and> Query fuel build client ctx opts w
           = Query fuel build client ctx (opts\<lparr>Sort := None\<rparr>) w"
  using assms
  by (auto simp: withSort_def Query_def queryInput_def Let_def split: option.splits sum.splits)

theorem incomplete_Sort_is_ignored_witness:
  "Sort (validOptions\<lparr>Sort := Some \<lparr>Key = '''', KeyValue = AnyString ''Comedy'',
                                      KeyOperator = ''BEGINS_WITH''\<rparr>\<rparr>)
     = Some \<lparr>Key = '''', KeyValue = AnyString ''Comedy'', KeyOperator = ''BEGINS_WITH''\<rparr>
   \<and> Key \<lparr>Key = '''', KeyValue = AnyString ''Comedy'', KeyOperator = ''BEGINS_WITH''\<rparr> = ''''
   \<and> withSort (KeyEqual ''Status'' (ValueOperand (AnyString ''active'')))
        (Sort (validOptions\<lparr>Sort := Some \<lparr>Key = '''', KeyValue = AnyString ''Comedy'',
                                             KeyOperator = ''BEGINS_WITH''\<rparr>\<rparr>))
       = Inr (KeyEqual ''Status'' (ValueOperand (AnyString ''active'')))
   \<and> Query 5 plainBuild scripted ()
        (validOptions\<lparr>Sort := Some \<lparr>Key = '''', KeyValue = AnyString ''Comedy'',
                                       KeyOperator = ''BEGINS_WITH''\<rparr>\<rparr>)
        (startWorld threePages)
       = Query 5 plainBuild scripted () validOptions (startWorld threePages)"
  using incomplete_Sort_is_ignored [of
      "validOptions\<lparr>Sort := Some \<lparr>Key = '''', KeyValue = AnyString ''Comedy'',
                                     KeyOperator = ''BEGINS_WITH''\<rparr>\<rparr>"
      "\<lparr>Key = '''', KeyValue = AnyString ''Comedy'', KeyOperator = ''BEGINS_WITH''\<rparr>"
      "KeyEqual ''Status'' (ValueOperand (AnyString ''active''))"
      5 plainBuild scripted "()" "startWorld threePages"]
  by (simp add: validOptions_def)

subsection \<open>The filter\<close>

text \<open>
  Claim C5, as the code has it. For options that pass validation and whose key
  condition builds, a \<^verbatim>\<open>Where\<close> that fails to compile makes \<^verbatim>\<open>Query\<close> return the bare
  sentinel \<^verbatim>\<open>DynamoDBErrBuildFilterExpression\<close>, with \<^verbatim>\<open>nil\<close> items and nothing sent to
  the store. The compile error \<open>e\<close> is dropped: the result is the same for every \<open>e\<close>.
\<close>

theorem filter_failure_returns_bare_sentinel:
  assumes "Table opts \<noteq> ''''" and "Index opts \<noteq> ''''"
      and "Partition opts = Some part" and "Key part \<noteq> ''''" and "KeyValue part \<noteq> AnyNil"
      and "withSort (KeyEqual (Key part) (ValueOperand (KeyValue part))) (Sort opts) = Inr keyEx"
      and "Where opts = Some wh" and "buildFilterExpression wh = Inl e"
  shows "Query fuel build client ctx opts w
           = Some (([], Some DynamoDBErrBuildFilterExpression), w)"
  using assms by (simp add: Query_def)

theorem filter_failure_returns_bare_sentinel_witness:
  "Table (validOptions\<lparr>Where := Some (WhereNode [(leaf ''genre'' 0)\<lparr>Operator := In\<rparr>] [] OR)\<rparr>)
     \<noteq> ''''
   \<and> Index (validOptions\<lparr>Where := Some (WhereNode [(leaf ''genre'' 0)\<lparr>Operator := In\<rparr>] [] OR)\<rparr>)
     \<noteq> ''''
   \<and> Partition (validOptions\<lparr>Where := Some (WhereNode [(leaf ''genre'' 0)\<lparr>Operator := In\<rparr>] [] OR)\<rparr>)
     = Some \<lparr>Key = ''Status'', KeyValue = AnyString ''active'', KeyOperator = ''''\<rparr>
   \<and> withSort (KeyEqual ''Status'' (ValueOperand (AnyString ''active'')))
        (Sort (validOptions\<lparr>Where := Some (WhereNode [(leaf ''genre'' 0)\<lparr>Operator := In\<rparr>] [] OR)\<rparr>))
     = Inr (KeyEqual ''Status'' (ValueOperand (AnyString ''active'')))
   \<and> buildFilterExpression (WhereNode [(leaf ''genre'' 0)\<lparr>Operator := In\<rparr>] [] OR)
     = Inl (ErrorsNew ''IN operator requires non-empty Values slice'')
   \<and> Query 5 plainBuild scripted ()
        (validOptions\<lparr>Where := Some (WhereNode [(leaf ''genre'' 0)\<lparr>Operator := In\<rparr>] [] OR)\<rparr>)
        (startWorld threePages)
     = Some (([], Some DynamoDBErrBuildFilterExpression), startWorld threePages)"
  using filter_failure_returns_bare_sentinel [of
      "validOptions\<lparr>Where := Some (WhereNode [(leaf ''genre'' 0)\<lparr>Operator := In\<rparr>] [] OR)\<rparr>"
      "\<lparr>Key = ''Status'', KeyValue = AnyString ''active'', KeyOperator = ''''\<rparr>"
      "KeyEqual ''Status'' (ValueOperand (AnyString ''active''))"
      "WhereNode [(leaf ''genre'' 0)\<lparr>Operator := In\<rparr>] [] OR"
      "ErrorsNew ''IN operator requires non-empty Values slice''"
      5 plainBuild scripted "()" "startWorld threePages"]
  by (simp add: validOptions_def withSort_def leaf_def buildSingleCondition_def
      WhereOperator_defs)

text \<open>
  The claim as written fails on two filters that fail to compile for different reasons,
  an empty tree and an unknown leaf operator: \<^verbatim>\<open>Query\<close> returns the same sentinel value
  for both and it carries neither compile error, so the failure cannot be read back
  from it.
\<close>

theorem filter_error_not_recoverable_counterexample:
  "buildFilterExpression (WhereNode [] [] '''') = Inl (ErrorsNew ''no conditions provided'')
   \<and> buildFilterExpression (WhereNode [(leaf ''a'' 1)\<lparr>Operator := ''LIKE''\<rparr>] [] '''')
       = Inl (ErrorsNew ''unsupported operator: LIKE'')
   \<and> Query 5 plainBuild scripted () (validOptions\<lparr>Where := Some (WhereNode [] [] '''')\<rparr>)
        (startWorld threePages)
       = Some (([], Some DynamoDBErrBuildFilterExpression), startWorld threePages)
   \<and> Query 5 plainBuild scripted ()
        (validOptions\<lparr>Where := Some (WhereNode [(leaf ''a'' 1)\<lparr>Operator := ''LIKE''\<rparr>] [] '''')\<rparr>)
        (startWorld threePages)
       = Some (([], Some DynamoDBErrBuildFilterExpression), startWorld threePages)"
  by (simp add: Query_def validOptions_def withSort_def leaf_def buildSingleCondition_def
      WhereOperator_defs)

subsection \<open>Pagination\<close>

text \<open>
  A run to the end: three pages of 3, 3 and 2 items come back as 8 items in page order,
  with no error.
\<close>

lemma three_pages_run:
  "outcome (Query 5 plainBuild scripted () validOptions (startWorld threePages))
     = Some (map item [''a'', ''b'', ''c'', ''d'', ''e'', ''f'', ''g'', ''h''], None)"
  by (simp add: run_defs)

text \<open>
  One turn of the loop whose fetch fails, whatever has been accumulated: the result is
  \<^verbatim>\<open>DynamoDBErrQuery\<close> with \<^verbatim>\<open>nil\<close> items, and the failed request is the last one sent.
\<close>

lemma paginate_failed_fetch:
  assumes "HasMorePages p"
      and "client ctx (pageRequest p) (backend w) = (Inl e, s')"
  shows "paginate (Suc fuel) client ctx p items w =
           Some (([], Some DynamoDBErrQuery),
                 \<lparr>requests = requests w @ [pageRequest p], backend = s'\<rparr>)"
  using assms by (simp add: NextPage_def clientQuery_def)

lemma paginate_failsAfter:
  assumes "HasMorePages p"
      and "failsAfter client ctx p (backend w) outs s'"
      and "length outs < fuel"
  shows "\<exists>rs. paginate fuel client ctx p items w
               = Some (([], Some DynamoDBErrQuery), \<lparr>requests = requests w @ rs, backend = s'\<rparr>)
             \<and> length rs = Suc (length outs)"
  using assms
proof (induction outs arbitrary: p items w fuel)
  case Nil
  then obtain n where "fuel = Suc n" by (cases fuel) auto
  with Nil show ?case
    by (auto simp: NextPage_def clientQuery_def split: prod.splits sum.splits)
next
  case (Cons out outs)
  then obtain n where n: "fuel = Suc n" by (cases fuel) auto
  from Cons.prems(2) obtain t where
    call: "client ctx (pageRequest p) (backend w) = (Inr out, t)"
    and key: "LastEvaluatedKey out \<noteq> None"
    and later: "failsAfter client ctx (p\<lparr>firstPage := False, nextToken := LastEvaluatedKey out\<rparr>)
                  t outs s'"
    by (auto split: prod.splits sum.splits)
  let ?p = "p\<lparr>firstPage := False, nextToken := LastEvaluatedKey out\<rparr>"
  let ?w = "\<lparr>requests = requests w @ [pageRequest p], backend = t\<rparr>"
  have more: "HasMorePages ?p" using key by (simp add: HasMorePages_def)
  have step: "paginate fuel client ctx p items w
                = paginate n client ctx ?p (items @ Items out) ?w"
    using Cons.prems(1) call n by (simp add: NextPage_def clientQuery_def)
  from later have later': "failsAfter client ctx ?p (backend ?w) outs s'" by simp
  from Cons.prems(3) n have "length outs < n" by simp
  from Cons.IH [OF more later' this, of "items @ Items out"]
  obtain rs where "paginate n client ctx ?p (items @ Items out) ?w
               = Some (([], Some DynamoDBErrQuery), \<lparr>requests = requests ?w @ rs, backend = s'\<rparr>)"
    "length rs = Suc (length outs)" by blast
  then have "paginate fuel client ctx p items w
      = Some (([], Some DynamoDBErrQuery),
              \<lparr>requests = requests w @ (pageRequest p # rs), backend = s'\<rparr>)
     \<and> length (pageRequest p # rs) = Suc (length (out # outs))"
    using step by simp
  then show ?case by blast
qed

text \<open>Options that pass every check before the loop reach the loop, from no items.\<close>

lemma Query_paginates:
  assumes "Table opts \<noteq> ''''" and "Index opts \<noteq> ''''"
      and "Partition opts = Some part" and "Key part \<noteq> ''''" and "KeyValue part \<noteq> AnyNil"
      and "withSort (KeyEqual (Key part) (ValueOperand (KeyValue part))) (Sort opts) = Inr keyEx"
      and "map_option buildFilterExpression (Where opts) = map_option Inr filterOpt"
      and "build keyEx filterOpt = Inr expr"
  shows "Query fuel build client ctx opts w
           = paginate fuel client ctx (NewQueryPaginator (queryInput opts expr)) [] w"
  using assms by (cases "Where opts"; cases filterOpt) (auto simp: Query_def)

text \<open>
  Claim C8. For options that pass validation and whose key condition, filter and
  expression build, so that \<^verbatim>\<open>Query\<close> reaches the store: when the store serves any
  number of pages \<open>outs\<close>, each announcing a further page, and fails on the fetch after
  them, \<^verbatim>\<open>Query\<close> returns \<^verbatim>\<open>DynamoDBErrQuery\<close> with \<^verbatim>\<open>nil\<close> items, the items of the
  pages served being dropped. The store has received one request per page served and
  the failed one, no request after it, and is left in the state of the failed call.
  Fuel for one fetch more than the pages served is enough.
\<close>

theorem Query_fetch_failure_aborts:
  assumes "Table opts \<noteq> ''''" and "Index opts \<noteq> ''''"
      and "Partition opts = Some part" and "Key part \<noteq> ''''" and "KeyValue part \<noteq> AnyNil"
      and "withSort (KeyEqual (Key part) (ValueOperand (KeyValue part))) (Sort opts) = Inr keyEx"
      and "map_option buildFilterExpression (Where opts) = map_option Inr filterOpt"
      and "build keyEx filterOpt = Inr expr"
      and "failsAfter client ctx (NewQueryPaginator (queryInput opts expr)) (backend w) outs s'"
      and "length outs < fuel"
  shows "\<exists>rs. Query fuel build client ctx opts w
               = Some (([], Some DynamoDBErrQuery), \<lparr>requests = requests w @ rs, backend = s'\<rparr>)
             \<and> length rs = Suc (length outs)"
proof -
  have "HasMorePages (NewQueryPaginator (queryInput opts expr))"
    by (simp add: HasMorePages_def NewQueryPaginator_def)
  from paginate_failsAfter [OF this assms(9) assms(10), of "[]"]
  have loop: "\<exists>rs. paginate fuel client ctx (NewQueryPaginator (queryInput opts expr)) [] w
               = Some (([], Some DynamoDBErrQuery), \<lparr>requests = requests w @ rs, backend = s'\<rparr>)
             \<and> length rs = Suc (length outs)" .
  have "Query fuel build client ctx opts w
          = paginate fuel client ctx (NewQueryPaginator (queryInput opts expr)) [] w"
    using assms(1-8) by (rule Query_paginates)
  with loop show ?thesis by simp
qed

theorem Query_fetch_failure_aborts_witness:
  "failsAfter scripted () (NewQueryPaginator (queryInput validOptions (plainExpression None)))
      (backend (startWorld failingPages))
      [\<lparr>Items = map item [''a'', ''b'', ''c''], LastEvaluatedKey = Some (item ''c'')\<rparr>]
      [page [''g'', ''h''] None]
   \<and> length [\<lparr>Items = map item [''a'', ''b'', ''c''], LastEvaluatedKey = Some (item ''c'')\<rparr>] < 5
   \<and> (\<exists>rs. Query 5 plainBuild scripted () validOptions (startWorld failingPages)
               = Some (([], Some DynamoDBErrQuery),
                       \<lparr>requests = requests (startWorld failingPages) @ rs,
                        backend = [page [''g'', ''h''] None]\<rparr>)
             \<and> length rs = Suc (length
                  [\<lparr>Items = map item [''a'', ''b'', ''c''], LastEvaluatedKey = Some (item ''c'')\<rparr>]))"
proof -
  have run: "failsAfter scripted () (NewQueryPaginator (queryInput validOptions (plainExpression None)))
      (backend (startWorld failingPages))
      [\<lparr>Items = map item [''a'', ''b'', ''c''], LastEvaluatedKey = Some (item ''c'')\<rparr>]
      [page [''g'', ''h''] None]"
    by (simp add: scripted_def failingPages_def startWorld_def page_def)
  have len: "length [\<lparr>Items = map item [''a'', ''b'', ''c''], LastEvaluatedKey = Some (item ''c'')\<rparr>]
      < (5::nat)" by simp
  have "\<exists>rs. Query 5 plainBuild scripted () validOptions (startWorld failingPages)
               = Some (([], Some DynamoDBErrQuery),
                       \<lparr>requests = requests (startWorld failingPages) @ rs,
                        backend = [page [''g'', ''h''] None]\<rparr>)
             \<and> length rs = Suc (length
                  [\<lparr>Items = map item [''a'', ''b'', ''c''], LastEvaluatedKey = Some (item ''c'')\<rparr>])"
    by (rule Query_fetch_failure_aborts [where
          part = "\<lparr>Key = ''Status'', KeyValue = AnyString ''active'', KeyOperator = ''''\<rparr>"
          and keyEx = "KeyEqual ''Status'' (ValueOperand (AnyString ''active''))"
          and filterOpt = None and expr = "plainExpression None", OF _ _ _ _ _ _ _ _ run len])
      (simp_all add: validOptions_def withSort_def plainBuild_def)
  with run len show ?thesis by blast
qed

text \<open>The same run, evaluated: two requests were sent and the third page is unread.\<close>

lemma failing_pages_run:
  "Query 5 plainBuild scripted () validOptions (startWorld failingPages)
     = Some (([], Some DynamoDBErrQuery),
             \<lparr>requests = [plainInput\<lparr>PageLimit := None\<rparr>,
                          plainInput\<lparr>ExclusiveStartKey := Some (item ''c''),
                                     PageLimit := None\<rparr>],
              backend = [page [''g'', ''h''] None]\<rparr>)"
  by (simp add: run_defs)

lemma paginate_cancellable:
  assumes "HasMorePages p"
      and "list_all (\<lambda>r. case r of Inl e \<Rightarrow> False | Inr out \<Rightarrow> LastEvaluatedKey out \<noteq> None) pre"
      and "length pre < fuel"
  shows "\<exists>w'. paginate fuel cancellable (made + length pre) p items
               \<lparr>requests = rq, backend = (made, pre @ rest)\<rparr>
             = Some (([], Some DynamoDBErrQuery), w')
           \<and> length (requests w') = Suc (length rq + length pre)
           \<and> backend w' = (made + length pre, rest)"
  using assms
proof (induction pre arbitrary: p items rq made fuel)
  case Nil
  then obtain n where "fuel = Suc n" by (cases fuel) auto
  with Nil show ?case
    by (simp add: NextPage_def clientQuery_def cancellable_def)
next
  case (Cons r pre)
  then obtain n where n: "fuel = Suc n" by (cases fuel) auto
  from Cons.prems obtain out where r: "r = Inr out" "LastEvaluatedKey out \<noteq> None"
    by (cases r) auto
  let ?p = "p\<lparr>firstPage := False, nextToken := LastEvaluatedKey out\<rparr>"
  have more: "HasMorePages ?p" using r by (simp add: HasMorePages_def)
  have step: "paginate fuel cancellable (made + length (r # pre)) p items
               \<lparr>requests = rq, backend = (made, (r # pre) @ rest)\<rparr>
        = paginate n cancellable (Suc made + length pre) ?p (items @ Items out)
            \<lparr>requests = rq @ [pageRequest p], backend = (Suc made, pre @ rest)\<rparr>"
    using Cons.prems(1) r n by (simp add: NextPage_def clientQuery_def cancellable_def)
  from Cons.IH [OF more, where fuel = n and items = "items @ Items out"
      and rq = "rq @ [pageRequest p]" and made = "Suc made"] Cons.prems n
  show ?case unfolding step by simp
qed

text \<open>
  Claim C4, as the code has it. \<^verbatim>\<open>Query\<close> does not look at the context between
  fetches; it hands the context to every fetch. Against a store that honours the
  context: when the caller cancels after \<open>length pre\<close> pages have come back, each
  announcing a further page, the loop still attempts the next fetch, that fetch fails
  with the context's error, and the loop returns \<^verbatim>\<open>DynamoDBErrQuery\<close>, not the context's
  error, with \<^verbatim>\<open>nil\<close> items. The store has then received one request more than the
  pages it served, and the rest of its pages are unread.
\<close>

theorem cancelled_context_fails_the_next_fetch:
  assumes "list_all (\<lambda>r. case r of Inl e \<Rightarrow> False | Inr out \<Rightarrow> LastEvaluatedKey out \<noteq> None) pre"
      and "length pre < fuel"
  shows "\<exists>w'. paginate fuel cancellable (length pre) (NewQueryPaginator input) []
               (startWorld (0, pre @ rest))
             = Some (([], Some DynamoDBErrQuery), w')
           \<and> length (requests w') = Suc (length pre)
           \<and> backend w' = (length pre, rest)"
  using paginate_cancellable [of "NewQueryPaginator input" pre fuel 0 "[]" "[]" rest] assms
  by (simp add: startWorld_def HasMorePages_def NewQueryPaginator_def)

theorem cancelled_context_fails_the_next_fetch_witness:
  "list_all (\<lambda>r. case r of Inl e \<Rightarrow> False | Inr out \<Rightarrow> LastEvaluatedKey out \<noteq> None)
      (butlast threePages)
   \<and> length (butlast threePages) < 5
   \<and> (\<exists>w'. paginate 5 cancellable (length (butlast threePages)) (NewQueryPaginator plainInput) []
               (startWorld (0, butlast threePages @ [last threePages]))
             = Some (([], Some DynamoDBErrQuery), w')
           \<and> length (requests w') = Suc (length (butlast threePages))
           \<and> backend w' = (length (butlast threePages), [last threePages]))"
  using cancelled_context_fails_the_next_fetch [of "butlast threePages" 5 plainInput
      "[last threePages]"]
  by (simp add: threePages_def page_def)

text \<open>
  The claim as written fails when the caller cancels after the first of three pages:
  \<^verbatim>\<open>Query\<close> returns \<^verbatim>\<open>DynamoDBErrQuery\<close>, which is not the context's error, and the store
  has received two requests, the second one after the cancellation.
\<close>

theorem cancellation_counterexample:
  "outcome (Query 5 plainBuild cancellable 1 validOptions (startWorld (0, threePages)))
     = Some ([], Some DynamoDBErrQuery)
   \<and> DynamoDBErrQuery \<noteq> ContextCanceled
   \<and> map_option length
        (sent (Query 5 plainBuild cancellable 1 validOptions (startWorld (0, threePages))))
     = Some 2"
  by (simp add: run_defs)

subsection \<open>The request\<close>

text \<open>
  Claim C1, at options whose \<^verbatim>\<open>Limit\<close> is zero. The request \<^verbatim>\<open>Query\<close> assembles carries
  the limit 0, not 100: \<^verbatim>\<open>defaultLimit\<close> is declared and never applied. The paginator
  drops a limit that is not positive, so the requests the store receives carry no limit
  at all.
\<close>

theorem Limit_zero_is_not_defaulted:
  "Limit validOptions = 0
   \<and> PageLimit (queryInput validOptions expr) = Some 0
   \<and> PageLimit (queryInput validOptions expr) \<noteq> Some 100
   \<and> map_option (map PageLimit)
        (sent (Query 5 plainBuild scripted () validOptions (startWorld threePages)))
       = Some [None, None, None]"
proof -
  have "Limit validOptions = 0"
    by (simp add: validOptions_def)
  moreover have "PageLimit (queryInput validOptions expr) = Some 0"
    by (simp add: queryInput_def validOptions_def Let_def)
  moreover have "Some (0::32 word) \<noteq> Some 100"
    by simp
  moreover have "map_option (map PageLimit)
        (sent (Query 5 plainBuild scripted () validOptions (startWorld threePages)))
       = Some [None, None, None]"
    by (simp add: run_defs)
  ultimately show ?thesis by (simp del: word_eq_numeral_iff_iszero)
qed

text \<open>
  Claim C2, at options whose \<^verbatim>\<open>Cursor\<close> is \<^verbatim>\<open>abc\<close>. \<^verbatim>\<open>Query\<close> never reads \<^verbatim>\<open>Cursor\<close>: the
  first request starts from no key, the later ones from the key the store returned,
  and the whole run is the run without a cursor.
\<close>

theorem Cursor_is_never_read:
  "Cursor (validOptions\<lparr>Cursor := ''abc''\<rparr>) = ''abc''
   \<and> map_option (map ExclusiveStartKey)
        (sent (Query 5 plainBuild scripted () (validOptions\<lparr>Cursor := ''abc''\<rparr>)
                 (startWorld threePages)))
       = Some [None, Some (item ''c''), Some (item ''f'')]
   \<and> Query 5 plainBuild scripted () (validOptions\<lparr>Cursor := ''abc''\<rparr>) (startWorld threePages)
       = Query 5 plainBuild scripted () validOptions (startWorld threePages)"
  by (simp add: run_defs)

end
